theory Spec2Isabelle
  imports Main
begin

section \<open>The image studio page script (src/index.tsx)\<close>

text \<open>
  The script is the glue of a single page: module variables hold the uploaded images,
  DOM elements hold the form and the gallery, and two operations of a remote service
  produce images. The embedding passes the whole of that as one record, \<open>page\<close>:
  every function of the script takes the page and returns the page it leaves behind.

  Conventions of the embedding.
  \<^item> A JavaScript string is a \<open>string\<close>; \<open>null\<close> and \<open>undefined\<close> are \<open>None\<close>.
  \<^item> An element the script casts to a concrete element type
    (\<^verbatim>\<open>promptInput\<close>, \<^verbatim>\<open>negativePromptInput\<close>, the three file inputs, the three
    preview images, the checked radio buttons) is taken to exist; an element the script
    leaves typed \<^verbatim>\<open>HTMLElement | null\<close> and guards with \<^verbatim>\<open>?.\<close> or \<^verbatim>\<open>if\<close> (the gallery,
    the preview containers, the drop-zone wrappers, the fieldsets) is an \<open>option\<close>,
    \<open>None\<close> when the page does not have it.
  \<^item> Of a \<^verbatim>\<open>classList\<close> only the membership of the one class the script toggles is
    kept: \<open>True\<close> for a hideable element means that it carries the class \<^verbatim>\<open>hidden\<close>,
    \<open>loading\<close> of the gallery that it carries the class \<^verbatim>\<open>loading\<close>.
  \<^item> \<^verbatim>\<open>alert\<close>, \<^verbatim>\<open>console.error\<close> and the calls to the remote service are logged in
    the page, in the order they happen.
  \<^item> One run of \<^verbatim>\<open>generate\<close> is modelled without other events of the page
    interleaved at its \<^verbatim>\<open>await\<close>.
\<close>

subsection \<open>Types\<close>

datatype Mode = TextToImage | ImageEdit | ImageUpscale | FaceSwap

datatype AspectRatio = Ratio_1_1 | Ratio_3_4 | Ratio_4_3 | Ratio_16_9

text \<open>What \<^verbatim>\<open>fileToBase64\<close> rejects with: its own \<^verbatim>\<open>Error\<close>, or the event of \<^verbatim>\<open>reader.onerror\<close>.\<close>

datatype Rejection = Error string | ProgressEvent

text \<open>
  What the \<^verbatim>\<open>try\<close> block of \<^verbatim>\<open>generate\<close> can throw: the rejection of the remote call,
  or the \<^verbatim>\<open>TypeError\<close> of reading a property of \<^verbatim>\<open>undefined\<close>.
\<close>

datatype Thrown = ApiError string | TypeError

datatype Modality = IMAGE | TEXT

datatype RequestPart = InlineDataPart "string option" "string option" | TextPart string

record GenerateContentParameters =
  contentModel :: string
  contentParts :: "RequestPart list"
  responseModalities :: "Modality list"

record GenerateImagesParameters =
  imagesModel :: string
  imagesPrompt :: string
  numberOfImages :: nat
  outputMimeType :: string
  aspectRatio :: AspectRatio
  negativePrompt :: string

datatype ApiCall =
  GenerateContent GenerateContentParameters
| GenerateImages GenerateImagesParameters

text \<open>
  The responses of the remote service, with the fields the script reads. In a content
  response the list of candidates, a candidate's content and a content's parts may each
  be missing, and a part carries inline data (\<^verbatim>\<open>data\<close> and \<^verbatim>\<open>mimeType\<close>) or not. A
  generated image exposes its bytes (\<^verbatim>\<open>image.image.imageBytes\<close>).
\<close>

record Blob =
  blobData :: string
  blobMimeType :: string

record Part =
  inlineData :: "Blob option"
  partText :: "string option"

record Content =
  parts :: "Part list option"

record Candidate =
  content :: "Content option"

record GenerateContentResponse =
  candidates :: "Candidate list option"

record GeneratedImage =
  imageBytes :: string

record GenerateImagesResponse =
  generatedImages :: "GeneratedImage list"

text \<open>
  The world outside the page: the two remote operations, each rejecting or resolving,
  and the clock, \<open>dateNow k\<close> being what the \<open>k\<close>-th reading of \<^verbatim>\<open>Date.now()\<close> returns.
\<close>

record Env =
  generateContent :: "GenerateContentParameters \<Rightarrow> Thrown + GenerateContentResponse"
  generateImages :: "GenerateImagesParameters \<Rightarrow> Thrown + GenerateImagesResponse"
  dateNow :: "nat \<Rightarrow> nat"

text \<open>
  A file as the browser hands it over: its declared type and what \<^verbatim>\<open>readAsDataURL\<close> will
  produce for it (\<open>None\<close> when reading fails).
\<close>

record File =
  fileType :: string
  readResult :: "string option"

text \<open>
  One entry of the gallery, as \<^verbatim>\<open>appendImage\<close> builds it: the image and the download
  link. The class names, the link text and the aria label are constants and left out.
\<close>

record ImageContainer =
  imgSrc :: string
  imgAlt :: string
  linkHref :: string
  linkDownload :: string

record Gallery =
  children :: "ImageContainer list"
  loading :: bool

record page =
  uploadedImageBase64 :: "string option"
  uploadedImageMimeType :: "string option"
  sourceImageBase64 :: "string option"
  sourceImageMimeType :: "string option"
  targetImageBase64 :: "string option"
  targetImageMimeType :: "string option"
  imageGallery :: "Gallery option"
  promptInput :: string
  negativePromptInput :: string
  imageUploadInput :: string
  imagePreviewContainer :: "bool option"
  imagePreview :: string
  dropZoneWrapper :: "bool option"
  sourceImageUploadInput :: string
  sourceImagePreviewContainer :: "bool option"
  sourceImagePreview :: string
  sourceDropZoneWrapper :: "bool option"
  targetImageUploadInput :: string
  targetImagePreviewContainer :: "bool option"
  targetImagePreview :: string
  targetDropZoneWrapper :: "bool option"
  promptFieldset :: "bool option"
  imageUploadFieldset :: "bool option"
  faceSwapFieldset :: "bool option"
  negativePromptFieldset :: "bool option"
  aspectRatioFieldset :: "bool option"
  styleFieldset :: "bool option"
  modeChecked :: Mode
  imageStyleChecked :: string
  aspectRatioChecked :: AspectRatio
  alerts :: "string list"
  console :: "Thrown list"
  calls :: "ApiCall list"
  clockReads :: nat

text \<open>A result of the \<^verbatim>\<open>try\<close> block: it ran to its end, left by \<^verbatim>\<open>return\<close>, or threw.\<close>

datatype 'a completion = Normal 'a | Return 'a | Throw Thrown 'a

subsection \<open>JavaScript primitives\<close>

text \<open>
  \<^verbatim>\<open>String.prototype.trim\<close> strips white space and line terminators from both ends. A
  \<open>char\<close> is read as a code unit below 256; of the characters \<^verbatim>\<open>trim\<close> strips these are
  tab, line feed, vertical tab, form feed, carriage return, space and no-break space.
\<close>

definition isWhiteSpace :: "char \<Rightarrow> bool" where
  "isWhiteSpace c = (of_char c \<in> {9, 10, 11, 12, 13, 32, 160 :: nat})"

definition trim :: "string \<Rightarrow> string" where
  "trim s = rev (dropWhile isWhiteSpace (rev (dropWhile isWhiteSpace s)))"

text \<open>Truthiness of a \<^verbatim>\<open>string | null\<close>: \<^verbatim>\<open>null\<close> and the empty string are falsy.\<close>

definition truthy :: "string option \<Rightarrow> bool" where
  "truthy v = (case v of None \<Rightarrow> False | Some x \<Rightarrow> x \<noteq> [])"

text \<open>\<^verbatim>\<open>String.prototype.startsWith\<close>.\<close>

definition startsWith :: "string \<Rightarrow> string \<Rightarrow> bool" where
  "startsWith s p = (take (length p) s = p)"

text \<open>\<^verbatim>\<open>String.prototype.split\<close> at a one-character separator, and reading an index.\<close>

fun split :: "char \<Rightarrow> string \<Rightarrow> string list" where
  "split sep [] = [[]]"
| "split sep (c # cs) =
     (if c = sep then [] # split sep cs
      else (case split sep cs of
              [] \<Rightarrow> [[c]]
            | w # ws \<Rightarrow> (c # w) # ws))"

fun at :: "'a list \<Rightarrow> nat \<Rightarrow> 'a option" where
  "at [] i = None"
| "at (x # xs) 0 = Some x"
| "at (x # xs) (Suc i) = at xs i"

text \<open>A value of type \<^verbatim>\<open>string | undefined\<close> inside a template literal.\<close>

definition interpolate :: "string option \<Rightarrow> string" where
  "interpolate v = (case v of None \<Rightarrow> ''undefined'' | Some x \<Rightarrow> x)"

text \<open>A number inside a template literal: its decimal digits.\<close>

fun decimal :: "nat \<Rightarrow> string" where
  "decimal n =
     (if n < 10 then [char_of (48 + n)]
      else decimal (n div 10) @ [char_of (48 + n mod 10)])"

declare decimal.simps [simp del]

subsection \<open>Effects\<close>

definition alert :: "string \<Rightarrow> page \<Rightarrow> page" where
  "alert msg s = s\<lparr>alerts := alerts s @ [msg]\<rparr>"

definition consoleError :: "Thrown \<Rightarrow> page \<Rightarrow> page" where
  "consoleError e s = s\<lparr>console := console s @ [e]\<rparr>"

text \<open>\<^verbatim>\<open>imageGallery.classList.remove('loading')\<close>.\<close>

definition removeLoading :: "page \<Rightarrow> page" where
  "removeLoading s =
     s\<lparr>imageGallery := map_option (\<lambda>g. g\<lparr>loading := False\<rparr>) (imageGallery s)\<rparr>"

text \<open>\<^verbatim>\<open>el?.classList.add('hidden')\<close> and \<^verbatim>\<open>el?.classList.remove('hidden')\<close>.\<close>

definition addHidden :: "bool option \<Rightarrow> bool option" where
  "addHidden el = map_option (\<lambda>_. True) el"

definition removeHidden :: "bool option \<Rightarrow> bool option" where
  "removeHidden el = map_option (\<lambda>_. False) el"

subsection \<open>appendImage\<close>

definition appendImage :: "Env \<Rightarrow> string \<Rightarrow> page \<Rightarrow> page" where
  "appendImage env imageUrl s =
     (case imageGallery s of
        None \<Rightarrow> s
      | Some g \<Rightarrow>
          let imageContainer =
                \<lparr>imgSrc = imageUrl,
                 imgAlt = (if promptInput s = [] then ''Generated/Edited Image''
                           else promptInput s),
                 linkHref = imageUrl,
                 linkDownload =
                   ''imagen-generated-'' @ decimal (dateNow env (clockReads s)) @ ''.png''\<rparr>
          in s\<lparr>imageGallery := Some (g\<lparr>children := children g @ [imageContainer]\<rparr>),
               clockReads := Suc (clockReads s)\<rparr>)"

subsection \<open>generate\<close>

text \<open>The model names and the two fixed instruction texts, as the script spells them.\<close>

definition textToImageModel :: string where
  "textToImageModel = ''imagen-4.0-generate-001''"

definition imageEditModel :: string where
  "imageEditModel = ''gemini-2.5-flash-image-preview''"

definition upscaleInstruction :: string where
  "upscaleInstruction =
     ''Upscale this image to a higher resolution, enhancing details without altering the content or style.''"

definition faceSwapInstruction :: string where
  "faceSwapInstruction =
     ''From the first image provided, extract the face. Then, seamlessly swap this face onto the most prominent person in the second image provided. Ensure the lighting, skin tone, and angle of the new face match the target image's environment.''"

definition genericFailure :: string where
  "genericFailure =
     ''An error occurred while generating images. Check the console for details.''"

text \<open>
  \<^verbatim>\<open>response.candidates[0].content.parts\<close>, read without a guard: each missing link
  throws a \<^verbatim>\<open>TypeError\<close>.
\<close>

definition firstCandidateParts :: "GenerateContentResponse \<Rightarrow> Thrown + Part list" where
  "firstCandidateParts response =
     (case candidates response of
        None \<Rightarrow> Inl TypeError
      | Some cs \<Rightarrow>
          (case at cs 0 of
             None \<Rightarrow> Inl TypeError
           | Some c \<Rightarrow>
               (case content c of
                  None \<Rightarrow> Inl TypeError
                | Some ct \<Rightarrow>
                    (case parts ct of
                       None \<Rightarrow> Inl TypeError
                     | Some ps \<Rightarrow> Inr ps))))"

text \<open>The body of the \<^verbatim>\<open>forEach\<close> over the parts of a content response.\<close>

definition appendPart :: "Env \<Rightarrow> Part \<Rightarrow> page \<Rightarrow> page" where
  "appendPart env part s =
     (case inlineData part of
        None \<Rightarrow> s
      | Some blob \<Rightarrow>
          let base64ImageBytes = blobData blob;
              imageUrl = ''data:'' @ blobMimeType blob @ '';base64,'' @ base64ImageBytes
          in appendImage env imageUrl s)"

text \<open>The body of the \<^verbatim>\<open>forEach\<close> over the generated images.\<close>

definition appendGenerated :: "Env \<Rightarrow> GeneratedImage \<Rightarrow> page \<Rightarrow> page" where
  "appendGenerated env generated s =
     (let imageUrl = ''data:image/png;base64,'' @ imageBytes generated
      in appendImage env imageUrl s)"

text \<open>
  \<^verbatim>\<open>await ai.models.generateContent(...)\<close> followed by the extraction: the call is logged,
  a rejection is thrown, a response is walked part by part.
\<close>

definition contentCall :: "Env \<Rightarrow> GenerateContentParameters \<Rightarrow> page \<Rightarrow> page completion" where
  "contentCall env request s =
     (let s1 = s\<lparr>calls := calls s @ [GenerateContent request]\<rparr>
      in case generateContent env request of
           Inl e \<Rightarrow> Throw e s1
         | Inr response \<Rightarrow>
             (case firstCandidateParts response of
                Inl e \<Rightarrow> Throw e s1
              | Inr ps \<Rightarrow> Normal (fold (appendPart env) ps s1)))"

definition imagesCall :: "Env \<Rightarrow> GenerateImagesParameters \<Rightarrow> page \<Rightarrow> page completion" where
  "imagesCall env request s =
     (let s1 = s\<lparr>calls := calls s @ [GenerateImages request]\<rparr>
      in case generateImages env request of
           Inl e \<Rightarrow> Throw e s1
         | Inr response \<Rightarrow> Normal (fold (appendGenerated env) (generatedImages response) s1))"

text \<open>The \<^verbatim>\<open>try\<close> block of \<^verbatim>\<open>generate\<close>, branch by branch.\<close>

definition generateTry :: "Env \<Rightarrow> Mode \<Rightarrow> page \<Rightarrow> page completion" where
  "generateTry env selectedMode s =
     (if selectedMode = ImageEdit \<or> selectedMode = ImageUpscale then
        if \<not> truthy (uploadedImageBase64 s) \<or> \<not> truthy (uploadedImageMimeType s) then
          Return (removeLoading (alert
            (''Please upload an image for ''
               @ (if selectedMode = ImageEdit then ''editing'' else ''upscaling'') @ ''.'') s))
        else if selectedMode = ImageEdit \<and> trim (promptInput s) = [] then
          Return (removeLoading (alert ''Please enter a prompt for editing.'' s))
        else
          let promptForEdit =
                (if selectedMode = ImageEdit then promptInput s else upscaleInstruction)
          in contentCall env
               \<lparr>contentModel = imageEditModel,
                contentParts =
                  [InlineDataPart (uploadedImageBase64 s) (uploadedImageMimeType s),
                   TextPart promptForEdit],
                responseModalities = [IMAGE, TEXT]\<rparr> s
      else if selectedMode = FaceSwap then
        if \<not> truthy (sourceImageBase64 s) \<or> \<not> truthy (targetImageBase64 s) then
          Return (removeLoading (alert
            ''Please upload both a source face and a target image for face swap.'' s))
        else
          contentCall env
            \<lparr>contentModel = imageEditModel,
             contentParts =
               [InlineDataPart (sourceImageBase64 s) (sourceImageMimeType s),
                InlineDataPart (targetImageBase64 s) (targetImageMimeType s),
                TextPart faceSwapInstruction],
             responseModalities = [IMAGE, TEXT]\<rparr> s
      else
        let userPrompt = promptInput s
        in if trim userPrompt = [] then
             Return (removeLoading (alert ''Please enter a prompt.'' s))
           else
             let selectedStyle = imageStyleChecked s;
                 finalPrompt =
                   (if selectedStyle \<noteq> [] then selectedStyle @ '', '' @ userPrompt
                    else userPrompt);
                 negativePrompt = negativePromptInput s;
                 selectedAspectRatio = aspectRatioChecked s
             in imagesCall env
                  \<lparr>imagesModel = textToImageModel,
                   imagesPrompt = finalPrompt,
                   numberOfImages = 4,
                   outputMimeType = ''image/png'',
                   aspectRatio = selectedAspectRatio,
                   negativePrompt = negativePrompt\<rparr> s)"

text \<open>
  \<^verbatim>\<open>generate\<close>: nothing without a gallery element; otherwise the gallery is emptied and
  marked loading, the \<^verbatim>\<open>try\<close> block runs, \<^verbatim>\<open>catch\<close> logs what was thrown and shows the
  generic message, and \<^verbatim>\<open>finally\<close> takes the loading mark off on every way out.
\<close>

definition generate :: "Env \<Rightarrow> page \<Rightarrow> page" where
  "generate env s =
     (case imageGallery s of
        None \<Rightarrow> s
      | Some g \<Rightarrow>
          let selectedMode = modeChecked s;
              s1 = s\<lparr>imageGallery := Some (g\<lparr>children := [], loading := True\<rparr>)\<rparr>
          in removeLoading
               (case generateTry env selectedMode s1 of
                  Normal s2 \<Rightarrow> s2
                | Return s2 \<Rightarrow> s2
                | Throw error s2 \<Rightarrow> alert genericFailure (consoleError error s2)))"

subsection \<open>Upload slots\<close>

definition fileToBase64 :: "File \<Rightarrow> Rejection + (string option \<times> string)" where
  "fileToBase64 file =
     (if \<not> startsWith (fileType file) ''image/'' then Inl (Error ''File is not an image.'')
      else (case readResult file of
              None \<Rightarrow> Inl ProgressEvent
            | Some result \<Rightarrow> Inr (at (split (CHR '','') result) (Suc 0), fileType file)))"

text \<open>\<^verbatim>\<open>(error as Error).message\<close>; the event of a failed read has none.\<close>

definition message :: "Rejection \<Rightarrow> string option" where
  "message error = (case error of Error m \<Rightarrow> Some m | ProgressEvent \<Rightarrow> None)"

definition handleSingleFile :: "File \<Rightarrow> page \<Rightarrow> page" where
  "handleSingleFile file s =
     (case fileToBase64 file of
        Inr (base64, mimeType) \<Rightarrow>
          s\<lparr>uploadedImageBase64 := base64,
            uploadedImageMimeType := Some mimeType,
            imagePreview := ''data:'' @ mimeType @ '';base64,'' @ interpolate base64,
            imagePreviewContainer := removeHidden (imagePreviewContainer s),
            dropZoneWrapper := addHidden (dropZoneWrapper s)\<rparr>
      | Inl error \<Rightarrow> alert (interpolate (message error)) s)"

definition handleSourceFile :: "File \<Rightarrow> page \<Rightarrow> page" where
  "handleSourceFile file s =
     (case fileToBase64 file of
        Inr (base64, mimeType) \<Rightarrow>
          s\<lparr>sourceImageBase64 := base64,
            sourceImageMimeType := Some mimeType,
            sourceImagePreview := ''data:'' @ mimeType @ '';base64,'' @ interpolate base64,
            sourceImagePreviewContainer := removeHidden (sourceImagePreviewContainer s),
            sourceDropZoneWrapper := addHidden (sourceDropZoneWrapper s)\<rparr>
      | Inl error \<Rightarrow> alert (interpolate (message error)) s)"

definition handleTargetFile :: "File \<Rightarrow> page \<Rightarrow> page" where
  "handleTargetFile file s =
     (case fileToBase64 file of
        Inr (base64, mimeType) \<Rightarrow>
          s\<lparr>targetImageBase64 := base64,
            targetImageMimeType := Some mimeType,
            targetImagePreview := ''data:'' @ mimeType @ '';base64,'' @ interpolate base64,
            targetImagePreviewContainer := removeHidden (targetImagePreviewContainer s),
            targetDropZoneWrapper := addHidden (targetDropZoneWrapper s)\<rparr>
      | Inl error \<Rightarrow> alert (interpolate (message error)) s)"

definition removeSingleUploadedImage :: "page \<Rightarrow> page" where
  "removeSingleUploadedImage s =
     s\<lparr>uploadedImageBase64 := None,
       uploadedImageMimeType := None,
       imageUploadInput := [],
       imagePreviewContainer := addHidden (imagePreviewContainer s),
       dropZoneWrapper := removeHidden (dropZoneWrapper s)\<rparr>"

definition removeSourceImage :: "page \<Rightarrow> page" where
  "removeSourceImage s =
     s\<lparr>sourceImageBase64 := None,
       sourceImageMimeType := None,
       sourceImageUploadInput := [],
       sourceImagePreviewContainer := addHidden (sourceImagePreviewContainer s),
       sourceDropZoneWrapper := removeHidden (sourceDropZoneWrapper s)\<rparr>"

definition removeTargetImage :: "page \<Rightarrow> page" where
  "removeTargetImage s =
     s\<lparr>targetImageBase64 := None,
       targetImageMimeType := None,
       targetImageUploadInput := [],
       targetImagePreviewContainer := addHidden (targetImagePreviewContainer s),
       targetDropZoneWrapper := removeHidden (targetDropZoneWrapper s)\<rparr>"

definition clearAll :: "page \<Rightarrow> page" where
  "clearAll s =
     (let s1 = s\<lparr>promptInput := [], negativePromptInput := []\<rparr>;
          s2 = s1\<lparr>imageGallery := map_option (\<lambda>g. g\<lparr>children := []\<rparr>) (imageGallery s1)\<rparr>
      in removeTargetImage (removeSourceImage (removeSingleUploadedImage s2)))"

subsection \<open>updateUiForMode\<close>

definition hideAllFieldsets :: "page \<Rightarrow> page" where
  "hideAllFieldsets s =
     s\<lparr>promptFieldset := addHidden (promptFieldset s),
       imageUploadFieldset := addHidden (imageUploadFieldset s),
       faceSwapFieldset := addHidden (faceSwapFieldset s),
       negativePromptFieldset := addHidden (negativePromptFieldset s),
       aspectRatioFieldset := addHidden (aspectRatioFieldset s),
       styleFieldset := addHidden (styleFieldset s)\<rparr>"

definition updateUiForMode :: "Mode \<Rightarrow> page \<Rightarrow> page" where
  "updateUiForMode mode s =
     (let s0 = hideAllFieldsets s
      in if mode = TextToImage then
           removeTargetImage (removeSourceImage (removeSingleUploadedImage
             (s0\<lparr>promptFieldset := removeHidden (promptFieldset s0),
                 negativePromptFieldset := removeHidden (negativePromptFieldset s0),
                 aspectRatioFieldset := removeHidden (aspectRatioFieldset s0),
                 styleFieldset := removeHidden (styleFieldset s0)\<rparr>)))
         else if mode = ImageEdit then
           removeTargetImage (removeSourceImage
             (s0\<lparr>promptFieldset := removeHidden (promptFieldset s0),
                 imageUploadFieldset := removeHidden (imageUploadFieldset s0)\<rparr>))
         else if mode = ImageUpscale then
           removeTargetImage (removeSourceImage
             (s0\<lparr>imageUploadFieldset := removeHidden (imageUploadFieldset s0)\<rparr>))
         else if mode = FaceSwap then
           removeSingleUploadedImage
             (s0\<lparr>faceSwapFieldset := removeHidden (faceSwapFieldset s0)\<rparr>)
         else s0)"

section \<open>Vocabulary of the specification\<close>

text \<open>
  The definitions of this section follow the words of the specification, not the
  script; the theorems below compare them with what the script computes.
\<close>

text \<open>
  A violated precondition, mode by mode: a prompt that is blank after trimming in
  TextToImage and ImageEdit, no image in the single-image slot in ImageEdit and
  ImageUpscale, an empty source or target slot in FaceSwap.
\<close>

definition preconditionViolated :: "page \<Rightarrow> bool" where
  "preconditionViolated s =
     (case modeChecked s of
        TextToImage \<Rightarrow> trim (promptInput s) = []
      | ImageEdit \<Rightarrow> trim (promptInput s) = [] \<or> uploadedImageBase64 s = None
      | ImageUpscale \<Rightarrow> uploadedImageBase64 s = None
      | FaceSwap \<Rightarrow> sourceImageBase64 s = None \<or> targetImageBase64 s = None)"

text \<open>
  The URLs a content response asks for: one per part that carries inline data, in the
  order of the parts, each built from the part's MIME type and bytes.
\<close>

fun inlineImageUrls :: "Part list \<Rightarrow> string list" where
  "inlineImageUrls [] = []"
| "inlineImageUrls (p # ps) =
     (case inlineData p of
        None \<Rightarrow> inlineImageUrls ps
      | Some b \<Rightarrow>
          (''data:'' @ blobMimeType b @ '';base64,'' @ blobData b) # inlineImageUrls ps)"

text \<open>One PNG data URL per generated image.\<close>

definition generatedImageUrls :: "GeneratedImage list \<Rightarrow> string list" where
  "generatedImageUrls imgs = map (\<lambda>i. ''data:image/png;base64,'' @ imageBytes i) imgs"

text \<open>
  A content response with no candidates, or whose first candidate has no content or no
  parts.
\<close>

definition lacksParts :: "GenerateContentResponse \<Rightarrow> bool" where
  "lacksParts response =
     (case candidates response of
        None \<Rightarrow> True
      | Some [] \<Rightarrow> True
      | Some (c # cs) \<Rightarrow> (case content c of None \<Rightarrow> True | Some ct \<Rightarrow> parts ct = None))"

text \<open>What the remote service rejects a logged call with, if it does.\<close>

definition rejection :: "Env \<Rightarrow> ApiCall \<Rightarrow> Thrown option" where
  "rejection env c =
     (case c of
        GenerateContent request \<Rightarrow>
          (case generateContent env request of Inl e \<Rightarrow> Some e | Inr _ \<Rightarrow> None)
      | GenerateImages request \<Rightarrow>
          (case generateImages env request of Inl e \<Rightarrow> Some e | Inr _ \<Rightarrow> None))"

text \<open>
  An upload slot seen as one value: the stored image and its MIME type, the value of the
  file input, the source of the preview image, and whether the preview container and the
  drop-zone wrapper are hidden.
\<close>

record Slot =
  storedBase64 :: "string option"
  storedMimeType :: "string option"
  fileInput :: string
  previewSource :: string
  previewHidden :: "bool option"
  dropZoneHidden :: "bool option"

definition singleSlot :: "page \<Rightarrow> Slot" where
  "singleSlot s =
     \<lparr>storedBase64 = uploadedImageBase64 s, storedMimeType = uploadedImageMimeType s,
      fileInput = imageUploadInput s, previewSource = imagePreview s,
      previewHidden = imagePreviewContainer s, dropZoneHidden = dropZoneWrapper s\<rparr>"

definition sourceSlot :: "page \<Rightarrow> Slot" where
  "sourceSlot s =
     \<lparr>storedBase64 = sourceImageBase64 s, storedMimeType = sourceImageMimeType s,
      fileInput = sourceImageUploadInput s, previewSource = sourceImagePreview s,
      previewHidden = sourceImagePreviewContainer s,
      dropZoneHidden = sourceDropZoneWrapper s\<rparr>"

definition targetSlot :: "page \<Rightarrow> Slot" where
  "targetSlot s =
     \<lparr>storedBase64 = targetImageBase64 s, storedMimeType = targetImageMimeType s,
      fileInput = targetImageUploadInput s, previewSource = targetImagePreview s,
      previewHidden = targetImagePreviewContainer s,
      dropZoneHidden = targetDropZoneWrapper s\<rparr>"

text \<open>
  A cleared slot: image and MIME type absent, file input empty, preview hidden and
  drop zone shown (where the page has these elements).
\<close>

definition cleared :: "Slot \<Rightarrow> Slot" where
  "cleared sl =
     sl\<lparr>storedBase64 := None, storedMimeType := None, fileInput := [],
        previewHidden := addHidden (previewHidden sl),
        dropZoneHidden := removeHidden (dropZoneHidden sl)\<rparr>"

section \<open>Sample pages\<close>

text \<open>
  A page with every element, in TextToImage mode with the prompt of the specification's
  scenarios, nothing uploaded, one earlier result in the gallery and nothing logged.
\<close>

definition oldGallery :: Gallery where
  "oldGallery =
     \<lparr>children =
        [\<lparr>imgSrc = ''data:image/png;base64,T0xE'', imgAlt = ''an old result'',
          linkHref = ''data:image/png;base64,T0xE'',
          linkDownload = ''imagen-generated-999.png''\<rparr>],
      loading = False\<rparr>"

definition studioPage :: page where
  "studioPage =
     \<lparr>uploadedImageBase64 = None, uploadedImageMimeType = None,
      sourceImageBase64 = None, sourceImageMimeType = None,
      targetImageBase64 = None, targetImageMimeType = None,
      imageGallery = Some oldGallery,
      promptInput = ''a red bicycle'', negativePromptInput = [],
      imageUploadInput = [], imagePreviewContainer = Some True, imagePreview = [],
      dropZoneWrapper = Some False,
      sourceImageUploadInput = [], sourceImagePreviewContainer = Some True,
      sourceImagePreview = [], sourceDropZoneWrapper = Some False,
      targetImageUploadInput = [], targetImagePreviewContainer = Some True,
      targetImagePreview = [], targetDropZoneWrapper = Some False,
      promptFieldset = Some False, imageUploadFieldset = Some True,
      faceSwapFieldset = Some True, negativePromptFieldset = Some False,
      aspectRatioFieldset = Some False, styleFieldset = Some False,
      modeChecked = TextToImage, imageStyleChecked = [], aspectRatioChecked = Ratio_1_1,
      alerts = [], console = [], calls = [], clockReads = 0\<rparr>"

text \<open>The page in ImageEdit mode, an image uploaded and an edit prompt typed.\<close>

definition editPage :: page where
  "editPage =
     studioPage
       \<lparr>modeChecked := ImageEdit, promptInput := ''make the sky purple'',
        uploadedImageBase64 := Some ''QUJD'', uploadedImageMimeType := Some ''image/png'',
        imageUploadInput := ''C:/fakepath/a.png'',
        imagePreview := ''data:image/png;base64,QUJD'',
        imagePreviewContainer := Some False, dropZoneWrapper := Some True,
        imageUploadFieldset := Some False, negativePromptFieldset := Some True,
        aspectRatioFieldset := Some True, styleFieldset := Some True\<rparr>"

text \<open>The page in FaceSwap mode with a source and a target uploaded.\<close>

definition swapPage :: page where
  "swapPage =
     studioPage
       \<lparr>modeChecked := FaceSwap,
        sourceImageBase64 := Some ''U1JD'', sourceImageMimeType := Some ''image/jpeg'',
        sourceImageUploadInput := ''C:/fakepath/s.jpg'',
        sourceImagePreview := ''data:image/jpeg;base64,U1JD'',
        sourceImagePreviewContainer := Some False, sourceDropZoneWrapper := Some True,
        targetImageBase64 := Some ''VEdU'', targetImageMimeType := Some ''image/webp'',
        targetImageUploadInput := ''C:/fakepath/t.webp'',
        targetImagePreview := ''data:image/webp;base64,VEdU'',
        targetImagePreviewContainer := Some False, targetDropZoneWrapper := Some True,
        promptFieldset := Some True, faceSwapFieldset := Some False,
        negativePromptFieldset := Some True, aspectRatioFieldset := Some True,
        styleFieldset := Some True\<rparr>"

text \<open>The TextToImage page with a prompt of white space only, and with a style chosen.\<close>

definition blankPage :: page where
  "blankPage = studioPage\<lparr>promptInput := ''   ''\<rparr>"

definition stylePage :: page where
  "stylePage = studioPage\<lparr>imageStyleChecked := ''Oil painting''\<rparr>"

text \<open>
  Three remote services: one that answers (a content response of an image, a text and
  another image; four generated images), one whose content response has no candidate,
  and one that rejects every call.
\<close>

definition stubParts :: "Part list" where
  "stubParts =
     [\<lparr>inlineData = Some \<lparr>blobData = ''AAAA'', blobMimeType = ''image/png''\<rparr>,
       partText = None\<rparr>,
      \<lparr>inlineData = None, partText = Some ''Here you are.''\<rparr>,
      \<lparr>inlineData = Some \<lparr>blobData = ''BBBB'', blobMimeType = ''image/jpeg''\<rparr>,
       partText = None\<rparr>]"

definition stubResponse :: GenerateContentResponse where
  "stubResponse = \<lparr>candidates = Some [\<lparr>content = Some \<lparr>parts = Some stubParts\<rparr>\<rparr>]\<rparr>"

definition stubEnv :: Env where
  "stubEnv =
     \<lparr>generateContent = (\<lambda>_. Inr stubResponse),
      generateImages =
        (\<lambda>_. Inr \<lparr>generatedImages =
                     [\<lparr>imageBytes = ''AAAA''\<rparr>, \<lparr>imageBytes = ''BBBB''\<rparr>,
                      \<lparr>imageBytes = ''CCCC''\<rparr>, \<lparr>imageBytes = ''DDDD''\<rparr>]\<rparr>),
      dateNow = (\<lambda>k. 1000 + k)\<rparr>"

definition emptyEnv :: Env where
  "emptyEnv =
     \<lparr>generateContent = (\<lambda>_. Inr \<lparr>candidates = Some []\<rparr>),
      generateImages = (\<lambda>_. Inr \<lparr>generatedImages = []\<rparr>),
      dateNow = (\<lambda>k. 1000 + k)\<rparr>"

definition failingEnv :: Env where
  "failingEnv =
     \<lparr>generateContent = (\<lambda>_. Inl (ApiError ''unavailable'')),
      generateImages = (\<lambda>_. Inl (ApiError ''unavailable'')),
      dateNow = (\<lambda>k. 1000 + k)\<rparr>"

definition textFile :: File where
  "textFile = \<lparr>fileType = ''text/plain'', readResult = Some ''data:text/plain;base64,aGk=''\<rparr>"

section \<open>Lemmas about the script\<close>

lemmas slot_defs = singleSlot_def sourceSlot_def targetSlot_def cleared_def

lemmas remove_defs =
  removeSingleUploadedImage_def removeSourceImage_def removeTargetImage_def

lemmas run_defs =
  generate_def generateTry_def contentCall_def imagesCall_def firstCandidateParts_def
  appendPart_def appendGenerated_def appendImage_def removeLoading_def alert_def
  consoleError_def truthy_def trim_def isWhiteSpace_def Let_def

subsection \<open>Appending to the gallery touches the gallery and the clock only\<close>

lemma appendImage_logs [simp]:
  "calls (appendImage env u s) = calls s"
  "alerts (appendImage env u s) = alerts s"
  "console (appendImage env u s) = console s"
  by (simp_all add: appendImage_def Let_def split: option.split)

lemma appendImage_gallery:
  "imageGallery s = Some g \<Longrightarrow>
   \<exists>g'. imageGallery (appendImage env u s) = Some g'
        \<and> map imgSrc (children g') = map imgSrc (children g) @ [u]
        \<and> map linkHref (children g') = map linkHref (children g) @ [u]
        \<and> loading g' = loading g"
  by (simp add: appendImage_def Let_def)

lemma appendPart_logs [simp]:
  "calls (appendPart env p s) = calls s"
  "alerts (appendPart env p s) = alerts s"
  "console (appendPart env p s) = console s"
  by (simp_all add: appendPart_def Let_def split: option.split)

lemma fold_appendPart_logs [simp]:
  "calls (fold (appendPart env) ps s) = calls s"
  "alerts (fold (appendPart env) ps s) = alerts s"
  "console (fold (appendPart env) ps s) = console s"
  by (induction ps arbitrary: s) simp_all

lemma fold_appendPart_gallery:
  "imageGallery s = Some g \<Longrightarrow>
   \<exists>g'. imageGallery (fold (appendPart env) ps s) = Some g'
        \<and> map imgSrc (children g') = map imgSrc (children g) @ inlineImageUrls ps
        \<and> map linkHref (children g') = map linkHref (children g) @ inlineImageUrls ps
        \<and> loading g' = loading g"
proof (induction ps arbitrary: s g)
  case Nil
  then show ?case by simp
next
  case (Cons p ps)
  show ?case
  proof (cases "inlineData p")
    case None
    then have "appendPart env p s = s" by (simp add: appendPart_def)
    with Cons None show ?thesis by simp
  next
    case (Some b)
    let ?u = "''data:'' @ blobMimeType b @ '';base64,'' @ blobData b"
    have step: "appendPart env p s = appendImage env ?u s"
      using Some by (simp add: appendPart_def Let_def)
    from appendImage_gallery [OF Cons.prems, of env ?u]
    obtain g1 where g1: "imageGallery (appendImage env ?u s) = Some g1"
      "map imgSrc (children g1) = map imgSrc (children g) @ [?u]"
      "map linkHref (children g1) = map linkHref (children g) @ [?u]"
      "loading g1 = loading g" by blast
    from Cons.IH [OF g1(1)] obtain g' where
      "imageGallery (fold (appendPart env) ps (appendImage env ?u s)) = Some g'"
      "map imgSrc (children g') = map imgSrc (children g1) @ inlineImageUrls ps"
      "map linkHref (children g') = map linkHref (children g1) @ inlineImageUrls ps"
      "loading g' = loading g1" by blast
    with g1 Some step show ?thesis by simp
  qed
qed

lemma length_inlineImageUrls:
  "length (inlineImageUrls ps) = length (filter (\<lambda>p. inlineData p \<noteq> None) ps)"
  by (induction ps) (simp_all split: option.split)

lemma appendGenerated_logs [simp]:
  "calls (appendGenerated env i s) = calls s"
  "alerts (appendGenerated env i s) = alerts s"
  "console (appendGenerated env i s) = console s"
  by (simp_all add: appendGenerated_def Let_def)

lemma fold_appendGenerated_logs [simp]:
  "calls (fold (appendGenerated env) imgs s) = calls s"
  "alerts (fold (appendGenerated env) imgs s) = alerts s"
  "console (fold (appendGenerated env) imgs s) = console s"
  by (induction imgs arbitrary: s) simp_all

lemma fold_appendGenerated_gallery:
  "imageGallery s = Some g \<Longrightarrow>
   \<exists>g'. imageGallery (fold (appendGenerated env) imgs s) = Some g'
        \<and> map imgSrc (children g') = map imgSrc (children g) @ generatedImageUrls imgs
        \<and> loading g' = loading g"
proof (induction imgs arbitrary: s g)
  case Nil
  then show ?case by (simp add: generatedImageUrls_def)
next
  case (Cons i imgs)
  let ?u = "''data:image/png;base64,'' @ imageBytes i"
  from appendImage_gallery [OF Cons.prems, of env ?u]
  obtain g1 where g1: "imageGallery (appendGenerated env i s) = Some g1"
    "map imgSrc (children g1) = map imgSrc (children g) @ [?u]"
    "loading g1 = loading g"
    by (auto simp: appendGenerated_def Let_def)
  from Cons.IH [OF g1(1)] obtain g' where
    "imageGallery (fold (appendGenerated env) imgs (appendGenerated env i s)) = Some g'"
    "map imgSrc (children g') = map imgSrc (children g1) @ generatedImageUrls imgs"
    "loading g' = loading g1" by blast
  with g1 show ?case by (simp add: generatedImageUrls_def)
qed

subsection \<open>The try block, mode by mode\<close>

lemma generateTry_TextToImage:
  "generateTry env TextToImage s =
     (if trim (promptInput s) = [] then
        Return (removeLoading (alert ''Please enter a prompt.'' s))
      else imagesCall env
             \<lparr>imagesModel = textToImageModel,
              imagesPrompt =
                (if imageStyleChecked s \<noteq> [] then imageStyleChecked s @ '', '' @ promptInput s
                 else promptInput s),
              numberOfImages = 4,
              outputMimeType = ''image/png'',
              aspectRatio = aspectRatioChecked s,
              negativePrompt = negativePromptInput s\<rparr> s)"
  by (simp add: generateTry_def Let_def)

lemma generateTry_ImageEdit:
  "generateTry env ImageEdit s =
     (if \<not> truthy (uploadedImageBase64 s) \<or> \<not> truthy (uploadedImageMimeType s) then
        Return (removeLoading (alert ''Please upload an image for editing.'' s))
      else if trim (promptInput s) = [] then
        Return (removeLoading (alert ''Please enter a prompt for editing.'' s))
      else contentCall env
             \<lparr>contentModel = imageEditModel,
              contentParts =
                [InlineDataPart (uploadedImageBase64 s) (uploadedImageMimeType s),
                 TextPart (promptInput s)],
              responseModalities = [IMAGE, TEXT]\<rparr> s)"
  by (simp add: generateTry_def Let_def)

lemma generateTry_ImageUpscale:
  "generateTry env ImageUpscale s =
     (if \<not> truthy (uploadedImageBase64 s) \<or> \<not> truthy (uploadedImageMimeType s) then
        Return (removeLoading (alert ''Please upload an image for upscaling.'' s))
      else contentCall env
             \<lparr>contentModel = imageEditModel,
              contentParts =
                [InlineDataPart (uploadedImageBase64 s) (uploadedImageMimeType s),
                 TextPart upscaleInstruction],
              responseModalities = [IMAGE, TEXT]\<rparr> s)"
  by (simp add: generateTry_def Let_def)

lemma generateTry_FaceSwap:
  "generateTry env FaceSwap s =
     (if \<not> truthy (sourceImageBase64 s) \<or> \<not> truthy (targetImageBase64 s) then
        Return (removeLoading (alert
          ''Please upload both a source face and a target image for face swap.'' s))
      else contentCall env
             \<lparr>contentModel = imageEditModel,
              contentParts =
                [InlineDataPart (sourceImageBase64 s) (sourceImageMimeType s),
                 InlineDataPart (targetImageBase64 s) (targetImageMimeType s),
                 TextPart faceSwapInstruction],
              responseModalities = [IMAGE, TEXT]\<rparr> s)"
  by (simp add: generateTry_def Let_def)

lemma generateTry_shape:
  "(\<exists>msg. generateTry env m s = Return (removeLoading (alert msg s)))
   \<or> (\<exists>r. generateTry env m s = contentCall env r s)
   \<or> (\<exists>r. generateTry env m s = imagesCall env r s)"
  by (cases m) (simp_all add: generateTry_def Let_def, blast+)

lemma generateTry_cases:
  obtains (abort) msg where "generateTry env m s = Return (removeLoading (alert msg s))"
  | (content) r where "generateTry env m s = contentCall env r s"
  | (images) r where "generateTry env m s = imagesCall env r s"
  using generateTry_shape [of env m s] by blast

lemma generateTry_violation:
  "preconditionViolated s \<Longrightarrow> modeChecked s = m \<Longrightarrow>
   \<exists>msg. generateTry env m s = Return (removeLoading (alert msg s))"
  by (cases m) (auto simp: preconditionViolated_def generateTry_def truthy_def Let_def)

lemma preconditionViolated_gallery [simp]:
  "preconditionViolated (s\<lparr>imageGallery := x\<rparr>) = preconditionViolated s"
  by (cases "modeChecked s") (simp_all add: preconditionViolated_def)

subsection \<open>The remote calls\<close>

lemma lacksParts_iff: "lacksParts response \<longleftrightarrow> firstCandidateParts response = Inl TypeError"
  by (simp add: lacksParts_def firstCandidateParts_def split: option.split list.split)

lemma firstCandidateParts_Some:
  "candidates response = Some (c # cs) \<Longrightarrow> content c = Some ct \<Longrightarrow> parts ct = Some ps \<Longrightarrow>
   firstCandidateParts response = Inr ps"
  by (simp add: firstCandidateParts_def)

lemma contentCall_cases:
  obtains (rejected) e where "generateContent env r = Inl e"
      "contentCall env r s = Throw e (s\<lparr>calls := calls s @ [GenerateContent r]\<rparr>)"
  | (malformed) response where "generateContent env r = Inr response"
      "firstCandidateParts response = Inl TypeError"
      "contentCall env r s = Throw TypeError (s\<lparr>calls := calls s @ [GenerateContent r]\<rparr>)"
  | (resolved) response ps where "generateContent env r = Inr response"
      "firstCandidateParts response = Inr ps"
      "contentCall env r s =
         Normal (fold (appendPart env) ps (s\<lparr>calls := calls s @ [GenerateContent r]\<rparr>))"
proof (cases "generateContent env r")
  case (Inl e)
  then show ?thesis using rejected by (simp add: contentCall_def Let_def)
next
  case (Inr response)
  show ?thesis
  proof (cases "firstCandidateParts response")
    case (Inl e)
    then have "e = TypeError"
      by (auto simp: firstCandidateParts_def split: option.splits)
    with Inl Inr show ?thesis using malformed by (simp add: contentCall_def Let_def)
  next
    case (Inr ps)
    with \<open>generateContent env r = Inr response\<close> show ?thesis
      using resolved by (simp add: contentCall_def Let_def)
  qed
qed

lemma imagesCall_cases:
  obtains (rejected) e where "generateImages env r = Inl e"
      "imagesCall env r s = Throw e (s\<lparr>calls := calls s @ [GenerateImages r]\<rparr>)"
  | (resolved) response where "generateImages env r = Inr response"
      "imagesCall env r s =
         Normal (fold (appendGenerated env) (generatedImages response)
                   (s\<lparr>calls := calls s @ [GenerateImages r]\<rparr>))"
  by (cases "generateImages env r") (simp_all add: imagesCall_def Let_def)

subsection \<open>generate, outcome by outcome\<close>

lemma generate_present:
  "imageGallery s = Some g \<Longrightarrow>
   generate env s =
     removeLoading
       (case generateTry env (modeChecked s)
               (s\<lparr>imageGallery := Some (g\<lparr>children := [], loading := True\<rparr>)\<rparr>) of
          Normal s2 \<Rightarrow> s2
        | Return s2 \<Rightarrow> s2
        | Throw error s2 \<Rightarrow> alert genericFailure (consoleError error s2))"
  by (simp add: generate_def Let_def)

lemma generate_abort:
  assumes "imageGallery s = Some g"
    and "generateTry env (modeChecked s)
           (s\<lparr>imageGallery := Some (g\<lparr>children := [], loading := True\<rparr>)\<rparr>) =
         Return (removeLoading (alert msg
           (s\<lparr>imageGallery := Some (g\<lparr>children := [], loading := True\<rparr>)\<rparr>)))"
  shows "generate env s =
           s\<lparr>imageGallery := Some (g\<lparr>children := [], loading := False\<rparr>),
             alerts := alerts s @ [msg]\<rparr>"
  using assms by (simp add: generate_present removeLoading_def alert_def)

lemma generate_violation:
  assumes "imageGallery s = Some g" and "preconditionViolated s"
  shows "\<exists>msg. generate env s =
           s\<lparr>imageGallery := Some (g\<lparr>children := [], loading := False\<rparr>),
             alerts := alerts s @ [msg]\<rparr>"
proof -
  let ?s1 = "s\<lparr>imageGallery := Some (g\<lparr>children := [], loading := True\<rparr>)\<rparr>"
  have "preconditionViolated ?s1" using assms(2) by simp
  then obtain msg where
    "generateTry env (modeChecked s) ?s1 = Return (removeLoading (alert msg ?s1))"
    using generateTry_violation [of ?s1 "modeChecked s" env] by auto
  from generate_abort [OF assms(1) this] show ?thesis by blast
qed

lemma generate_contentCall:
  assumes "imageGallery s = Some g"
    and "generateTry env (modeChecked s)
           (s\<lparr>imageGallery := Some (g\<lparr>children := [], loading := True\<rparr>)\<rparr>) =
         contentCall env r (s\<lparr>imageGallery := Some (g\<lparr>children := [], loading := True\<rparr>)\<rparr>)"
  shows "calls (generate env s) = calls s @ [GenerateContent r]"
    and "generateContent env r = Inl e \<Longrightarrow>
           alerts (generate env s) = alerts s @ [genericFailure]
         \<and> console (generate env s) = console s @ [e]
         \<and> imageGallery (generate env s) = Some (g\<lparr>children := [], loading := False\<rparr>)"
    and "generateContent env r = Inr response \<Longrightarrow> firstCandidateParts response = Inl e \<Longrightarrow>
           alerts (generate env s) = alerts s @ [genericFailure]
         \<and> console (generate env s) = console s @ [e]
         \<and> imageGallery (generate env s) = Some (g\<lparr>children := [], loading := False\<rparr>)"
    and "generateContent env r = Inr response \<Longrightarrow> firstCandidateParts response = Inr ps \<Longrightarrow>
           alerts (generate env s) = alerts s
         \<and> console (generate env s) = console s
         \<and> (\<exists>g'. imageGallery (generate env s) = Some g'
                \<and> map imgSrc (children g') = inlineImageUrls ps
                \<and> map linkHref (children g') = inlineImageUrls ps
                \<and> \<not> loading g')"
proof -
  let ?s1 = "s\<lparr>imageGallery := Some (g\<lparr>children := [], loading := True\<rparr>)\<rparr>"
  let ?s2 = "?s1\<lparr>calls := calls ?s1 @ [GenerateContent r]\<rparr>"
  note gen = generate_present [OF assms(1), of env]
  have gal: "imageGallery ?s2 = Some (g\<lparr>children := [], loading := True\<rparr>)" by simp
  show "calls (generate env s) = calls s @ [GenerateContent r]"
    by (cases rule: contentCall_cases [of env r ?s1])
       (simp_all add: gen assms(2) removeLoading_def alert_def consoleError_def)
  show "alerts (generate env s) = alerts s @ [genericFailure]
         \<and> console (generate env s) = console s @ [e]
         \<and> imageGallery (generate env s) = Some (g\<lparr>children := [], loading := False\<rparr>)"
    if "generateContent env r = Inl e"
    using that
    by (simp add: gen assms(2) contentCall_def Let_def removeLoading_def alert_def
          consoleError_def)
  show "alerts (generate env s) = alerts s @ [genericFailure]
         \<and> console (generate env s) = console s @ [e]
         \<and> imageGallery (generate env s) = Some (g\<lparr>children := [], loading := False\<rparr>)"
    if "generateContent env r = Inr response" "firstCandidateParts response = Inl e"
    using that
    by (simp add: gen assms(2) contentCall_def Let_def removeLoading_def alert_def
          consoleError_def)
  show "alerts (generate env s) = alerts s
         \<and> console (generate env s) = console s
         \<and> (\<exists>g'. imageGallery (generate env s) = Some g'
                \<and> map imgSrc (children g') = inlineImageUrls ps
                \<and> map linkHref (children g') = inlineImageUrls ps
                \<and> \<not> loading g')"
    if "generateContent env r = Inr response" "firstCandidateParts response = Inr ps"
  proof -
    from fold_appendPart_gallery [OF gal, of env ps] obtain g' where
      "imageGallery (fold (appendPart env) ps ?s2) = Some g'"
      "map imgSrc (children g') = inlineImageUrls ps"
      "map linkHref (children g') = inlineImageUrls ps"
      "loading g'" by auto
    then show ?thesis using that
      by (simp add: gen assms(2) contentCall_def Let_def removeLoading_def)
  qed
qed

lemma generate_imagesCall:
  assumes "imageGallery s = Some g"
    and "generateTry env (modeChecked s)
           (s\<lparr>imageGallery := Some (g\<lparr>children := [], loading := True\<rparr>)\<rparr>) =
         imagesCall env r (s\<lparr>imageGallery := Some (g\<lparr>children := [], loading := True\<rparr>)\<rparr>)"
  shows "calls (generate env s) = calls s @ [GenerateImages r]"
    and "generateImages env r = Inl e \<Longrightarrow>
           alerts (generate env s) = alerts s @ [genericFailure]
         \<and> console (generate env s) = console s @ [e]
         \<and> imageGallery (generate env s) = Some (g\<lparr>children := [], loading := False\<rparr>)"
    and "generateImages env r = Inr response \<Longrightarrow>
           alerts (generate env s) = alerts s
         \<and> console (generate env s) = console s
         \<and> (\<exists>g'. imageGallery (generate env s) = Some g'
                \<and> map imgSrc (children g') = generatedImageUrls (generatedImages response)
                \<and> \<not> loading g')"
proof -
  let ?s1 = "s\<lparr>imageGallery := Some (g\<lparr>children := [], loading := True\<rparr>)\<rparr>"
  let ?s2 = "?s1\<lparr>calls := calls ?s1 @ [GenerateImages r]\<rparr>"
  note gen = generate_present [OF assms(1), of env]
  have gal: "imageGallery ?s2 = Some (g\<lparr>children := [], loading := True\<rparr>)" by simp
  show "calls (generate env s) = calls s @ [GenerateImages r]"
    by (cases rule: imagesCall_cases [of env r ?s1])
       (simp_all add: gen assms(2) removeLoading_def alert_def consoleError_def)
  show "alerts (generate env s) = alerts s @ [genericFailure]
         \<and> console (generate env s) = console s @ [e]
         \<and> imageGallery (generate env s) = Some (g\<lparr>children := [], loading := False\<rparr>)"
    if "generateImages env r = Inl e"
    using that
    by (simp add: gen assms(2) imagesCall_def Let_def removeLoading_def alert_def
          consoleError_def)
  show "alerts (generate env s) = alerts s
         \<and> console (generate env s) = console s
         \<and> (\<exists>g'. imageGallery (generate env s) = Some g'
                \<and> map imgSrc (children g') = generatedImageUrls (generatedImages response)
                \<and> \<not> loading g')"
    if "generateImages env r = Inr response"
  proof -
    from fold_appendGenerated_gallery [OF gal, of env "generatedImages response"]
    obtain g' where
      "imageGallery (fold (appendGenerated env) (generatedImages response) ?s2) = Some g'"
      "map imgSrc (children g') = generatedImageUrls (generatedImages response)"
      "loading g'" by auto
    then show ?thesis using that
      by (simp add: gen assms(2) imagesCall_def Let_def removeLoading_def)
  qed
qed

text \<open>A run that logged a content call went through the content branch with that request.\<close>

lemma generate_logged_content:
  assumes "imageGallery s = Some g"
    and "calls (generate env s) = calls s @ [GenerateContent request]"
  shows "modeChecked s \<noteq> TextToImage"
    and "generateTry env (modeChecked s)
           (s\<lparr>imageGallery := Some (g\<lparr>children := [], loading := True\<rparr>)\<rparr>) =
         contentCall env request
           (s\<lparr>imageGallery := Some (g\<lparr>children := [], loading := True\<rparr>)\<rparr>)"
proof -
  let ?s1 = "s\<lparr>imageGallery := Some (g\<lparr>children := [], loading := True\<rparr>)\<rparr>"
  show "modeChecked s \<noteq> TextToImage"
  proof
    assume t: "modeChecked s = TextToImage"
    show False
    proof (cases "trim (promptInput s) = []")
      case True
      then have "generate env s =
          s\<lparr>imageGallery := Some (g\<lparr>children := [], loading := False\<rparr>),
            alerts := alerts s @ [''Please enter a prompt.'']\<rparr>"
        using t by (intro generate_abort [OF assms(1)]) (simp add: generateTry_TextToImage)
      then show False using assms(2) by simp
    next
      case False
      then obtain r where "generateTry env (modeChecked s) ?s1 = imagesCall env r ?s1"
        using t by (simp add: generateTry_TextToImage)
      from generate_imagesCall(1) [OF assms(1) this] show False using assms(2) by simp
    qed
  qed
  show "generateTry env (modeChecked s) ?s1 = contentCall env request ?s1"
  proof (cases rule: generateTry_cases [of env "modeChecked s" ?s1])
    case (abort msg)
    from generate_abort [OF assms(1) this] show ?thesis using assms(2) by simp
  next
    case (content r)
    from generate_contentCall(1) [OF assms(1) content] have "r = request"
      using assms(2) by simp
    with content show ?thesis by simp
  next
    case (images r)
    from generate_imagesCall(1) [OF assms(1) images] show ?thesis using assms(2) by simp
  qed
qed

text \<open>The calls of a run in the two modes that take no prompt.\<close>

lemma generate_calls_ImageUpscale:
  assumes "imageGallery s = Some g" and "modeChecked s = ImageUpscale"
  shows "calls (generate env s) =
           (if \<not> truthy (uploadedImageBase64 s) \<or> \<not> truthy (uploadedImageMimeType s)
            then calls s
            else calls s @
              [GenerateContent
                 \<lparr>contentModel = imageEditModel,
                  contentParts =
                    [InlineDataPart (uploadedImageBase64 s) (uploadedImageMimeType s),
                     TextPart upscaleInstruction],
                  responseModalities = [IMAGE, TEXT]\<rparr>])"
proof (cases "\<not> truthy (uploadedImageBase64 s) \<or> \<not> truthy (uploadedImageMimeType s)")
  case True
  then have "generate env s =
      s\<lparr>imageGallery := Some (g\<lparr>children := [], loading := False\<rparr>),
        alerts := alerts s @ [''Please upload an image for upscaling.'']\<rparr>"
    using assms(2) by (intro generate_abort [OF assms(1)]) (simp add: generateTry_ImageUpscale)
  with True show ?thesis by simp
next
  case False
  then show ?thesis
    using assms(2)
    by (subst generate_contentCall(1) [OF assms(1)])
       (simp_all add: generateTry_ImageUpscale)
qed

lemma generate_calls_FaceSwap:
  assumes "imageGallery s = Some g" and "modeChecked s = FaceSwap"
  shows "calls (generate env s) =
           (if \<not> truthy (sourceImageBase64 s) \<or> \<not> truthy (targetImageBase64 s)
            then calls s
            else calls s @
              [GenerateContent
                 \<lparr>contentModel = imageEditModel,
                  contentParts =
                    [InlineDataPart (sourceImageBase64 s) (sourceImageMimeType s),
                     InlineDataPart (targetImageBase64 s) (targetImageMimeType s),
                     TextPart faceSwapInstruction],
                  responseModalities = [IMAGE, TEXT]\<rparr>])"
proof (cases "\<not> truthy (sourceImageBase64 s) \<or> \<not> truthy (targetImageBase64 s)")
  case True
  then have "generate env s =
      s\<lparr>imageGallery := Some (g\<lparr>children := [], loading := False\<rparr>),
        alerts := alerts s @
          [''Please upload both a source face and a target image for face swap.'']\<rparr>"
    using assms(2) by (intro generate_abort [OF assms(1)]) (simp add: generateTry_FaceSwap)
  with True show ?thesis by simp
next
  case False
  then show ?thesis
    using assms(2)
    by (subst generate_contentCall(1) [OF assms(1)])
       (simp_all add: generateTry_FaceSwap)
qed

section \<open>The claims\<close>

lemmas page_defs = studioPage_def editPage_def swapPage_def blankPage_def stylePage_def

lemmas env_defs = stubEnv_def emptyEnv_def failingEnv_def stubResponse_def stubParts_def

lemmas text_defs =
  imageEditModel_def textToImageModel_def upscaleInstruction_def faceSwapInstruction_def
  genericFailure_def

text \<open>
  C1. On a page with a gallery, a submission whose mode's preconditions are violated
  (blank prompt in TextToImage or ImageEdit, no image in the single-image slot in
  ImageEdit or ImageUpscale, an empty source or target slot in FaceSwap) makes no remote
  call, shows exactly one message, and ends with the loading mark off the gallery.
\<close>

theorem generate_validation_failure:
  assumes "imageGallery s = Some g" and "preconditionViolated s"
  shows "calls (generate env s) = calls s
       \<and> (\<exists>msg. alerts (generate env s) = alerts s @ [msg])
       \<and> (\<exists>g'. imageGallery (generate env s) = Some g' \<and> \<not> loading g')"
proof -
  from generate_violation [OF assms, of env] obtain msg where
    "generate env s =
       s\<lparr>imageGallery := Some (g\<lparr>children := [], loading := False\<rparr>),
         alerts := alerts s @ [msg]\<rparr>" by blast
  then show ?thesis by simp
qed

theorem generate_validation_failure_witness:
  "preconditionViolated blankPage
   \<and> calls (generate stubEnv blankPage) = []
   \<and> (\<exists>msg. alerts (generate stubEnv blankPage) = [msg])
   \<and> (\<exists>g'. imageGallery (generate stubEnv blankPage) = Some g' \<and> \<not> loading g')"
proof -
  have g: "imageGallery blankPage = Some oldGallery"
    by (simp add: page_defs)
  have v: "preconditionViolated blankPage"
    by (simp add: preconditionViolated_def page_defs trim_def isWhiteSpace_def)
  have c: "calls blankPage = []" "alerts blankPage = []"
    by (simp_all add: page_defs)
  from generate_validation_failure [OF g v, of stubEnv] v c
  show ?thesis by simp
qed

text \<open>
  C2. When a run of generate has made a content call (the call of the modes ImageEdit,
  ImageUpscale and FaceSwap) and the response has parts, the gallery holds exactly one
  entry per part that carries inline data, in the order of the parts; the source and the
  download target of each entry are the data URL built from that part's MIME type and
  bytes, and a part without inline data adds nothing.
\<close>

theorem generate_content_gallery:
  assumes "imageGallery s = Some g"
    and "calls (generate env s) = calls s @ [GenerateContent request]"
    and "generateContent env request = Inr response"
    and "candidates response = Some (c # cs)"
    and "content c = Some ct"
    and "parts ct = Some ps"
  shows "modeChecked s \<noteq> TextToImage
       \<and> (\<exists>g'. imageGallery (generate env s) = Some g'
              \<and> map imgSrc (children g') = inlineImageUrls ps
              \<and> map linkHref (children g') = inlineImageUrls ps
              \<and> length (children g') = length (filter (\<lambda>p. inlineData p \<noteq> None) ps))"
proof -
  have ps: "firstCandidateParts response = Inr ps"
    using assms(4-6) by (rule firstCandidateParts_Some)
  note logged = generate_logged_content [OF assms(1,2)]
  from generate_contentCall(4) [OF assms(1) logged(2) assms(3) ps]
  obtain g' where g': "imageGallery (generate env s) = Some g'"
    "map imgSrc (children g') = inlineImageUrls ps"
    "map linkHref (children g') = inlineImageUrls ps" by blast
  from g'(2) have "length (children g') = length (inlineImageUrls ps)"
    by (metis length_map)
  with g' logged(1) show ?thesis
    by (simp add: length_inlineImageUrls)
qed

theorem generate_content_gallery_witness:
  "modeChecked editPage \<noteq> TextToImage
   \<and> (\<exists>g'. imageGallery (generate stubEnv editPage) = Some g'
          \<and> map imgSrc (children g') =
              [''data:image/png;base64,AAAA'', ''data:image/jpeg;base64,BBBB'']
          \<and> map linkHref (children g') =
              [''data:image/png;base64,AAAA'', ''data:image/jpeg;base64,BBBB'']
          \<and> length (children g') = 2)"
proof -
  let ?request =
    "\<lparr>contentModel = imageEditModel,
      contentParts = [InlineDataPart (Some ''QUJD'') (Some ''image/png''),
                      TextPart ''make the sky purple''],
      responseModalities = [IMAGE, TEXT]\<rparr>"
  have g: "imageGallery editPage = Some oldGallery"
    by (simp add: page_defs)
  have c: "calls (generate stubEnv editPage) = calls editPage @ [GenerateContent ?request]"
    by (simp add: page_defs env_defs run_defs)
  have r: "generateContent stubEnv ?request = Inr stubResponse"
    by (simp add: stubEnv_def)
  have cs: "candidates stubResponse = Some (\<lparr>content = Some \<lparr>parts = Some stubParts\<rparr>\<rparr> # [])"
    by (simp add: stubResponse_def)
  from generate_content_gallery [OF g c r cs, of "\<lparr>parts = Some stubParts\<rparr>" stubParts]
  show ?thesis by (auto simp: stubParts_def)
qed

text \<open>
  C3. A TextToImage submission with a prompt that is not blank sends one
  image-generation request: its prompt is the style tag, a comma and a space, and the
  user's prompt when a style is selected, and the user's prompt as typed when none is;
  it asks for 4 images of MIME type image/png. When the service answers, the gallery
  holds one data:image/png;base64 entry per generated image, in order.
\<close>

theorem generate_text_to_image:
  assumes "imageGallery s = Some g"
    and "modeChecked s = TextToImage"
    and "trim (promptInput s) \<noteq> []"
  shows "\<exists>request.
           calls (generate env s) = calls s @ [GenerateImages request]
         \<and> imagesModel request = textToImageModel
         \<and> imagesPrompt request =
             (if imageStyleChecked s \<noteq> [] then imageStyleChecked s @ '', '' @ promptInput s
              else promptInput s)
         \<and> numberOfImages request = 4
         \<and> outputMimeType request = ''image/png''
         \<and> aspectRatio request = aspectRatioChecked s
         \<and> negativePrompt request = negativePromptInput s
         \<and> (\<forall>response. generateImages env request = Inr response \<longrightarrow>
               (\<exists>g'. imageGallery (generate env s) = Some g'
                    \<and> map imgSrc (children g') =
                        map (\<lambda>i. ''data:image/png;base64,'' @ imageBytes i)
                          (generatedImages response)))"
proof -
  let ?s1 = "s\<lparr>imageGallery := Some (g\<lparr>children := [], loading := True\<rparr>)\<rparr>"
  let ?request =
    "\<lparr>imagesModel = textToImageModel,
      imagesPrompt =
        (if imageStyleChecked s \<noteq> [] then imageStyleChecked s @ '', '' @ promptInput s
         else promptInput s),
      numberOfImages = 4,
      outputMimeType = ''image/png'',
      aspectRatio = aspectRatioChecked s,
      negativePrompt = negativePromptInput s\<rparr>"
  have tr: "generateTry env (modeChecked s) ?s1 = imagesCall env ?request ?s1"
    using assms(2,3) by (simp add: generateTry_TextToImage)
  have "calls (generate env s) = calls s @ [GenerateImages ?request]"
    by (rule generate_imagesCall(1) [OF assms(1) tr])
  moreover have "\<exists>g'. imageGallery (generate env s) = Some g'
        \<and> map imgSrc (children g') =
            map (\<lambda>i. ''data:image/png;base64,'' @ imageBytes i) (generatedImages response)"
    if "generateImages env ?request = Inr response" for response
    using generate_imagesCall(3) [OF assms(1) tr that]
    by (auto simp: generatedImageUrls_def)
  ultimately show ?thesis
    by (intro exI [of _ ?request]) simp
qed

theorem generate_text_to_image_witness:
  "trim (promptInput stylePage) \<noteq> []
   \<and> (\<exists>request.
         calls (generate stubEnv stylePage) = [GenerateImages request]
       \<and> imagesPrompt request = ''Oil painting, a red bicycle''
       \<and> numberOfImages request = 4
       \<and> outputMimeType request = ''image/png''
       \<and> (\<exists>g'. imageGallery (generate stubEnv stylePage) = Some g'
              \<and> map imgSrc (children g') =
                  [''data:image/png;base64,AAAA'', ''data:image/png;base64,BBBB'',
                   ''data:image/png;base64,CCCC'', ''data:image/png;base64,DDDD'']))"
proof -
  have g: "imageGallery stylePage = Some oldGallery"
    by (simp add: page_defs)
  have m: "modeChecked stylePage = TextToImage"
    by (simp add: page_defs)
  have t: "trim (promptInput stylePage) \<noteq> []"
    by (simp add: page_defs trim_def isWhiteSpace_def)
  from generate_text_to_image [OF g m t, of stubEnv]
  obtain request where
    r: "calls (generate stubEnv stylePage) = calls stylePage @ [GenerateImages request]"
      "imagesPrompt request =
         (if imageStyleChecked stylePage \<noteq> []
          then imageStyleChecked stylePage @ '', '' @ promptInput stylePage
          else promptInput stylePage)"
      "numberOfImages request = 4" "outputMimeType request = ''image/png''"
    and a: "\<forall>response. generateImages stubEnv request = Inr response \<longrightarrow>
          (\<exists>g'. imageGallery (generate stubEnv stylePage) = Some g'
               \<and> map imgSrc (children g') =
                   map (\<lambda>i. ''data:image/png;base64,'' @ imageBytes i)
                     (generatedImages response))"
    by blast
  have "generateImages stubEnv request =
          Inr \<lparr>generatedImages =
                 [\<lparr>imageBytes = ''AAAA''\<rparr>, \<lparr>imageBytes = ''BBBB''\<rparr>,
                  \<lparr>imageBytes = ''CCCC''\<rparr>, \<lparr>imageBytes = ''DDDD''\<rparr>]\<rparr>"
    by (simp add: stubEnv_def)
  with a have "\<exists>g'. imageGallery (generate stubEnv stylePage) = Some g'
      \<and> map imgSrc (children g') =
          [''data:image/png;base64,AAAA'', ''data:image/png;base64,BBBB'',
           ''data:image/png;base64,CCCC'', ''data:image/png;base64,DDDD'']"
    by fastforce
  moreover have "calls stylePage = []"
    "imageStyleChecked stylePage = ''Oil painting''" "promptInput stylePage = ''a red bicycle''"
    by (simp_all add: page_defs)
  ultimately show ?thesis using r t
    by (intro conjI exI [of _ request]) simp_all
qed

text \<open>
  C4. Switching to FaceSwap clears the single-image slot and leaves the source and the
  target slot as they were; switching to ImageEdit or to ImageUpscale clears the source
  and the target slot and leaves the single-image slot as it was; switching to
  TextToImage clears all three.
\<close>

theorem updateUiForMode_slots:
  "singleSlot (updateUiForMode FaceSwap s) = cleared (singleSlot s)
   \<and> sourceSlot (updateUiForMode FaceSwap s) = sourceSlot s
   \<and> targetSlot (updateUiForMode FaceSwap s) = targetSlot s
   \<and> sourceSlot (updateUiForMode ImageEdit s) = cleared (sourceSlot s)
   \<and> targetSlot (updateUiForMode ImageEdit s) = cleared (targetSlot s)
   \<and> singleSlot (updateUiForMode ImageEdit s) = singleSlot s
   \<and> sourceSlot (updateUiForMode ImageUpscale s) = cleared (sourceSlot s)
   \<and> targetSlot (updateUiForMode ImageUpscale s) = cleared (targetSlot s)
   \<and> singleSlot (updateUiForMode ImageUpscale s) = singleSlot s
   \<and> singleSlot (updateUiForMode TextToImage s) = cleared (singleSlot s)
   \<and> sourceSlot (updateUiForMode TextToImage s) = cleared (sourceSlot s)
   \<and> targetSlot (updateUiForMode TextToImage s) = cleared (targetSlot s)"
  by (simp add: updateUiForMode_def hideAllFieldsets_def remove_defs slot_defs Let_def)

theorem updateUiForMode_slots_witness:
  "sourceSlot (updateUiForMode ImageEdit swapPage) =
     \<lparr>storedBase64 = None, storedMimeType = None, fileInput = [],
      previewSource = ''data:image/jpeg;base64,U1JD'',
      previewHidden = Some True, dropZoneHidden = Some False\<rparr>
   \<and> singleSlot (updateUiForMode FaceSwap editPage) =
     \<lparr>storedBase64 = None, storedMimeType = None, fileInput = [],
      previewSource = ''data:image/png;base64,QUJD'',
      previewHidden = Some True, dropZoneHidden = Some False\<rparr>
   \<and> targetSlot (updateUiForMode FaceSwap swapPage) = targetSlot swapPage"
  using updateUiForMode_slots [of swapPage] updateUiForMode_slots [of editPage]
  by (simp add: page_defs slot_defs addHidden_def removeHidden_def)

text \<open>
  C5. A file whose declared type does not start with \<^verbatim>\<open>image/\<close> is rejected by the
  encoder with the error "File is not an image."; each of the three handlers then shows
  that message and changes nothing else on the page, so the slot's stored image, MIME
  type, file input and preview and drop-zone state are what they were.
\<close>

theorem non_image_file_rejected:
  assumes "\<not> startsWith (fileType file) ''image/''"
  shows "fileToBase64 file = Inl (Error ''File is not an image.'')
       \<and> handleSingleFile file s = s\<lparr>alerts := alerts s @ [''File is not an image.'']\<rparr>
       \<and> handleSourceFile file s = s\<lparr>alerts := alerts s @ [''File is not an image.'']\<rparr>
       \<and> handleTargetFile file s = s\<lparr>alerts := alerts s @ [''File is not an image.'']\<rparr>
       \<and> singleSlot (handleSingleFile file s) = singleSlot s
       \<and> sourceSlot (handleSourceFile file s) = sourceSlot s
       \<and> targetSlot (handleTargetFile file s) = targetSlot s"
  using assms
  by (simp add: fileToBase64_def handleSingleFile_def handleSourceFile_def
        handleTargetFile_def message_def interpolate_def alert_def slot_defs)

theorem non_image_file_rejected_witness:
  "\<not> startsWith (fileType textFile) ''image/''
   \<and> fileToBase64 textFile = Inl (Error ''File is not an image.'')
   \<and> alerts (handleSingleFile textFile editPage) = [''File is not an image.'']
   \<and> singleSlot (handleSingleFile textFile editPage) = singleSlot editPage
   \<and> storedBase64 (singleSlot (handleSingleFile textFile editPage)) = Some ''QUJD''"
proof -
  have h: "\<not> startsWith (fileType textFile) ''image/''"
    by (simp add: textFile_def startsWith_def)
  from non_image_file_rejected [OF h, of editPage] h
  show ?thesis by (simp add: page_defs slot_defs)
qed

text \<open>
  C6. An ImageUpscale or FaceSwap submission that passes validation sends a content
  request whose text part is a fixed instruction: after the uploaded image in
  ImageUpscale, and after the source image and the target image, in this order, in
  FaceSwap. In both modes the calls of a run are the same whatever the prompt input
  holds.
\<close>

theorem generate_fixed_instruction:
  assumes "imageGallery s = Some g"
  shows "(modeChecked s = ImageUpscale
            \<and> truthy (uploadedImageBase64 s) \<and> truthy (uploadedImageMimeType s) \<longrightarrow>
          calls (generate env s) = calls s @
            [GenerateContent
               \<lparr>contentModel = imageEditModel,
                contentParts =
                  [InlineDataPart (uploadedImageBase64 s) (uploadedImageMimeType s),
                   TextPart upscaleInstruction],
                responseModalities = [IMAGE, TEXT]\<rparr>])
       \<and> (modeChecked s = FaceSwap
            \<and> truthy (sourceImageBase64 s) \<and> truthy (targetImageBase64 s) \<longrightarrow>
          calls (generate env s) = calls s @
            [GenerateContent
               \<lparr>contentModel = imageEditModel,
                contentParts =
                  [InlineDataPart (sourceImageBase64 s) (sourceImageMimeType s),
                   InlineDataPart (targetImageBase64 s) (targetImageMimeType s),
                   TextPart faceSwapInstruction],
                responseModalities = [IMAGE, TEXT]\<rparr>])
       \<and> (modeChecked s = ImageUpscale \<or> modeChecked s = FaceSwap \<longrightarrow>
          calls (generate env (s\<lparr>promptInput := p\<rparr>)) = calls (generate env s))"
proof -
  have g': "imageGallery (s\<lparr>promptInput := p\<rparr>) = Some g"
    using assms by simp
  have up: "calls (generate env (s\<lparr>promptInput := p\<rparr>)) = calls (generate env s)"
    if "modeChecked s = ImageUpscale"
    using generate_calls_ImageUpscale [OF assms that, of env]
      generate_calls_ImageUpscale [OF g', of env] that
    by simp
  have sw: "calls (generate env (s\<lparr>promptInput := p\<rparr>)) = calls (generate env s)"
    if "modeChecked s = FaceSwap"
    using generate_calls_FaceSwap [OF assms that, of env]
      generate_calls_FaceSwap [OF g', of env] that
    by simp
  show ?thesis
    using up sw generate_calls_ImageUpscale [OF assms, of env]
      generate_calls_FaceSwap [OF assms, of env]
    by auto
qed

theorem generate_fixed_instruction_witness:
  "modeChecked swapPage = FaceSwap
   \<and> truthy (sourceImageBase64 swapPage) \<and> truthy (targetImageBase64 swapPage)
   \<and> calls (generate stubEnv swapPage) =
       [GenerateContent
          \<lparr>contentModel = imageEditModel,
           contentParts =
             [InlineDataPart (Some ''U1JD'') (Some ''image/jpeg''),
              InlineDataPart (Some ''VEdU'') (Some ''image/webp''),
              TextPart faceSwapInstruction],
           responseModalities = [IMAGE, TEXT]\<rparr>]
   \<and> calls (generate stubEnv (swapPage\<lparr>promptInput := ''paint it green''\<rparr>)) =
       calls (generate stubEnv swapPage)"
proof -
  have g: "imageGallery swapPage = Some oldGallery"
    by (simp add: page_defs)
  have m: "modeChecked swapPage = FaceSwap"
    "truthy (sourceImageBase64 swapPage)" "truthy (targetImageBase64 swapPage)"
    by (simp_all add: page_defs truthy_def)
  have f: "calls swapPage = []"
    "sourceImageBase64 swapPage = Some ''U1JD''"
    "sourceImageMimeType swapPage = Some ''image/jpeg''"
    "targetImageBase64 swapPage = Some ''VEdU''"
    "targetImageMimeType swapPage = Some ''image/webp''"
    by (simp_all add: page_defs)
  from generate_fixed_instruction [OF g, of stubEnv "''paint it green''"] m f
  show ?thesis by simp
qed

text \<open>
  C7. On a page with a gallery, every run of generate ends with the loading mark off the
  gallery, whether validation failed, the run completed, or the remote call or the
  extraction threw. A run makes at most one remote call; when the service rejects that
  call, the run shows the one generic failure message and logs the rejection to the
  console, and calls nothing again.
\<close>

theorem generate_clears_loading:
  assumes "imageGallery s = Some g"
  shows "(\<exists>g'. imageGallery (generate env s) = Some g' \<and> \<not> loading g')
       \<and> (calls (generate env s) = calls s \<or> (\<exists>c. calls (generate env s) = calls s @ [c]))
       \<and> (\<forall>c e. calls (generate env s) = calls s @ [c] \<and> rejection env c = Some e \<longrightarrow>
             alerts (generate env s) = alerts s @ [genericFailure]
           \<and> console (generate env s) = console s @ [e])"
proof -
  let ?s1 = "s\<lparr>imageGallery := Some (g\<lparr>children := [], loading := True\<rparr>)\<rparr>"
  show ?thesis
  proof (cases rule: generateTry_cases [of env "modeChecked s" ?s1])
    case (abort msg)
    from generate_abort [OF assms this] show ?thesis by simp
  next
    case (content r)
    note run = generate_contentCall [OF assms content]
    show ?thesis
    proof (cases rule: contentCall_cases [of env r ?s1])
      case (rejected e)
      with run(1) run(2) [OF rejected(1)] show ?thesis
        by (simp add: rejection_def)
    next
      case (malformed response)
      with run(1) run(3) [OF malformed(1,2)] show ?thesis
        by (simp add: rejection_def)
    next
      case (resolved response ps)
      with run(1) run(4) [OF resolved(1,2)] show ?thesis
        by (auto simp: rejection_def)
    qed
  next
    case (images r)
    note run = generate_imagesCall [OF assms images]
    show ?thesis
    proof (cases rule: imagesCall_cases [of env r ?s1])
      case (rejected e)
      with run(1) run(2) [OF rejected(1)] show ?thesis
        by (simp add: rejection_def)
    next
      case (resolved response)
      with run(1) run(3) [OF resolved(1)] show ?thesis
        by (auto simp: rejection_def)
    qed
  qed
qed

theorem generate_clears_loading_witness:
  "(\<exists>g'. imageGallery (generate failingEnv editPage) = Some g' \<and> \<not> loading g')
   \<and> length (calls (generate failingEnv editPage)) = 1
   \<and> alerts (generate failingEnv editPage) = [genericFailure]
   \<and> console (generate failingEnv editPage) = [ApiError ''unavailable'']"
proof -
  let ?request =
    "\<lparr>contentModel = imageEditModel,
      contentParts = [InlineDataPart (Some ''QUJD'') (Some ''image/png''),
                      TextPart ''make the sky purple''],
      responseModalities = [IMAGE, TEXT]\<rparr>"
  have g: "imageGallery editPage = Some oldGallery"
    by (simp add: page_defs)
  have c: "calls (generate failingEnv editPage) = calls editPage @ [GenerateContent ?request]"
    by (simp add: page_defs env_defs run_defs)
  have r: "rejection failingEnv (GenerateContent ?request) = Some (ApiError ''unavailable'')"
    by (simp add: rejection_def failingEnv_def)
  have f: "calls editPage = []" "alerts editPage = []" "console editPage = []"
    by (simp_all add: page_defs)
  from generate_clears_loading [OF g, of failingEnv] c r f
  show ?thesis by auto
qed

text \<open>
  C8. The clear-all action empties the gallery, clears all three upload slots (stored
  image and MIME type absent, file input empty, preview hidden, drop zone shown) and
  sets the prompt and the negative prompt to the empty string.
\<close>

theorem clearAll_resets:
  "imageGallery (clearAll s) = map_option (\<lambda>g. g\<lparr>children := []\<rparr>) (imageGallery s)
   \<and> singleSlot (clearAll s) = cleared (singleSlot s)
   \<and> sourceSlot (clearAll s) = cleared (sourceSlot s)
   \<and> targetSlot (clearAll s) = cleared (targetSlot s)
   \<and> promptInput (clearAll s) = []
   \<and> negativePromptInput (clearAll s) = []"
  by (simp add: clearAll_def remove_defs slot_defs Let_def)

theorem clearAll_resets_witness:
  "imageGallery (clearAll editPage) = Some \<lparr>children = [], loading = False\<rparr>
   \<and> singleSlot (clearAll editPage) =
       \<lparr>storedBase64 = None, storedMimeType = None, fileInput = [],
        previewSource = ''data:image/png;base64,QUJD'',
        previewHidden = Some True, dropZoneHidden = Some False\<rparr>
   \<and> storedBase64 (sourceSlot (clearAll swapPage)) = None
   \<and> storedBase64 (targetSlot (clearAll swapPage)) = None
   \<and> promptInput (clearAll editPage) = []
   \<and> negativePromptInput (clearAll editPage) = []"
  using clearAll_resets [of editPage] clearAll_resets [of swapPage]
  by (simp add: page_defs oldGallery_def slot_defs addHidden_def removeHidden_def)

text \<open>
  C9. generate empties the gallery before it checks any precondition: what the gallery
  held before has no influence on the run, and a submission that fails validation makes
  no remote call and leaves the gallery empty, the earlier results gone.
\<close>

theorem generate_empties_gallery_first:
  assumes "imageGallery s = Some g"
  shows "generate env s = generate env (s\<lparr>imageGallery := Some (g\<lparr>children := []\<rparr>)\<rparr>)
       \<and> (preconditionViolated s \<longrightarrow>
            calls (generate env s) = calls s
          \<and> imageGallery (generate env s) = Some (g\<lparr>children := [], loading := False\<rparr>))"
proof -
  have "generate env s = generate env (s\<lparr>imageGallery := Some (g\<lparr>children := []\<rparr>)\<rparr>)"
    using assms by (simp add: generate_def Let_def)
  moreover have "calls (generate env s) = calls s
      \<and> imageGallery (generate env s) = Some (g\<lparr>children := [], loading := False\<rparr>)"
    if "preconditionViolated s"
    using generate_violation [OF assms that, of env] by auto
  ultimately show ?thesis by simp
qed

theorem generate_empties_gallery_first_witness:
  "children oldGallery \<noteq> []
   \<and> preconditionViolated blankPage
   \<and> calls (generate stubEnv blankPage) = []
   \<and> imageGallery (generate stubEnv blankPage) = Some \<lparr>children = [], loading = False\<rparr>"
proof -
  have g: "imageGallery blankPage = Some oldGallery"
    by (simp add: page_defs)
  have v: "preconditionViolated blankPage"
    by (simp add: preconditionViolated_def page_defs trim_def isWhiteSpace_def)
  have c: "calls blankPage = []"
    by (simp add: page_defs)
  from generate_empties_gallery_first [OF g, of stubEnv, THEN conjunct2] v c
  show ?thesis by (simp add: oldGallery_def)
qed

text \<open>
  C10. In the content paths the first candidate of the response is read without a
  guard. When a run has made a content call and the response has no candidates, or its
  first candidate has no content or no parts, the TypeError is caught: the run logs it,
  shows the one generic failure message, and ends with an empty gallery and the loading
  mark off.
\<close>

theorem generate_missing_candidate:
  assumes "imageGallery s = Some g"
    and "calls (generate env s) = calls s @ [GenerateContent request]"
    and "generateContent env request = Inr response"
    and "lacksParts response"
  shows "modeChecked s \<noteq> TextToImage
       \<and> alerts (generate env s) = alerts s @ [genericFailure]
       \<and> console (generate env s) = console s @ [TypeError]
       \<and> imageGallery (generate env s) = Some (g\<lparr>children := [], loading := False\<rparr>)"
proof -
  have bad: "firstCandidateParts response = Inl TypeError"
    using assms(4) by (simp add: lacksParts_iff)
  note logged = generate_logged_content [OF assms(1,2)]
  from generate_contentCall(3) [OF assms(1) logged(2) assms(3) bad] logged(1)
  show ?thesis by simp
qed

theorem generate_missing_candidate_witness:
  "lacksParts \<lparr>candidates = Some []\<rparr>
   \<and> modeChecked editPage \<noteq> TextToImage
   \<and> alerts (generate emptyEnv editPage) = [genericFailure]
   \<and> console (generate emptyEnv editPage) = [TypeError]
   \<and> imageGallery (generate emptyEnv editPage) = Some \<lparr>children = [], loading = False\<rparr>"
proof -
  let ?request =
    "\<lparr>contentModel = imageEditModel,
      contentParts = [InlineDataPart (Some ''QUJD'') (Some ''image/png''),
                      TextPart ''make the sky purple''],
      responseModalities = [IMAGE, TEXT]\<rparr>"
  have g: "imageGallery editPage = Some oldGallery"
    by (simp add: page_defs)
  have c: "calls (generate emptyEnv editPage) = calls editPage @ [GenerateContent ?request]"
    by (simp add: page_defs env_defs run_defs)
  have r: "generateContent emptyEnv ?request = Inr \<lparr>candidates = Some []\<rparr>"
    by (simp add: emptyEnv_def)
  have l: "lacksParts \<lparr>candidates = Some []\<rparr>"
    by (simp add: lacksParts_def)
  have f: "alerts editPage = []" "console editPage = []"
    by (simp_all add: page_defs)
  from generate_missing_candidate [OF g c r l] l f
  show ?thesis by (simp add: oldGallery_def)
qed

end
